theory Spec2Isabelle
  imports Main
begin

section \<open>The request layer of main.py\<close>

text \<open>
  \<^verbatim>\<open>main.py\<close> builds three manager objects and routes HTTP requests and websocket
  messages to them. The classes \<^verbatim>\<open>DeviceManager\<close>, \<^verbatim>\<open>PlaybackManager\<close> and
  \<^verbatim>\<open>WebSocketManager\<close> are imported from sibling modules and are parameters here: a
  record of the methods and attributes \<^verbatim>\<open>main.py\<close> uses, each a function on the state
  the object can reach.
\<close>

subsection \<open>Exceptions and request bodies\<close>

text \<open>The three exceptions the handlers raise, each with the argument it is built from.\<close>

datatype error = ConnectError string | DisconnectError string | SinkError string

text \<open>
  The request bodies. \<^verbatim>\<open>bluetooth_sink\<close> tests \<^verbatim>\<open>action.address\<close> for truth, so the
  address of a \<^verbatim>\<open>SinkAction\<close> may be absent (\<^verbatim>\<open>None\<close>).
\<close>

datatype DeviceAction = DeviceAction (address: string)

datatype SinkAction = SinkAction (address: "string option")

datatype VideoAction = VideoAction (url: string)

subsection \<open>Program state\<close>

text \<open>
  The module-level objects: the state of \<^verbatim>\<open>device_manager\<close>, of \<^verbatim>\<open>playback_manager\<close>
  and of \<^verbatim>\<open>ws_manager\<close>, and the records written to the logger \<^verbatim>\<open>log\<close>.
\<close>

record ('d, 'p, 'w) app =
  device_manager :: 'd
  playback_manager :: 'p
  ws_manager :: 'w
  log :: "string list"

text \<open>
  What a manager can reach. \<^verbatim>\<open>DeviceManager(log, ws_manager.notifier)\<close> and
  \<^verbatim>\<open>PlaybackManager(log, ws_manager.notifier)\<close> are given the logger and the notifier of
  \<^verbatim>\<open>ws_manager\<close>: a method of theirs acts on the manager's own state, on the state of
  \<^verbatim>\<open>ws_manager\<close> and on the log. \<^verbatim>\<open>WebSocketManager(log)\<close> is given the logger only.
\<close>

type_synonym ('m, 'w) env = "'m \<times> 'w \<times> string list"

record ('d, 'w) DeviceManager =
  connect_device :: "string \<Rightarrow> ('d, 'w) env \<Rightarrow> bool \<times> ('d, 'w) env"
  disconnect_device :: "string \<Rightarrow> ('d, 'w) env \<Rightarrow> bool \<times> ('d, 'w) env"
  set_sink :: "string \<Rightarrow> ('d, 'w) env \<Rightarrow> bool \<times> ('d, 'w) env"
  unset_sinks :: "('d, 'w) env \<Rightarrow> bool \<times> ('d, 'w) env"

text \<open>
  \<^verbatim>\<open>main.py\<close> reads \<^verbatim>\<open>play\<close>, \<^verbatim>\<open>pause\<close>, \<^verbatim>\<open>skip_next\<close>, \<^verbatim>\<open>skip_prev\<close> and
  \<^verbatim>\<open>skip_queue\<close> as attributes of \<^verbatim>\<open>playback_manager\<close>, with no call, as it does
  \<^verbatim>\<open>device_manager.list_devices\<close> and \<^verbatim>\<open>video.to_dict\<close>. Each field below is what
  evaluating that attribute does to the state the manager can reach.
\<close>

record ('p, 'w, 'v, 'r) PlaybackManager =
  queue_video_url :: "string \<Rightarrow> ('p, 'w) env \<Rightarrow> 'v \<times> ('p, 'w) env"
  to_dict :: "'v \<Rightarrow> 'r"
  play :: "('p, 'w) env \<Rightarrow> ('p, 'w) env"
  pause :: "('p, 'w) env \<Rightarrow> ('p, 'w) env"
  skip_next :: "('p, 'w) env \<Rightarrow> ('p, 'w) env"
  skip_prev :: "('p, 'w) env \<Rightarrow> ('p, 'w) env"
  skip_queue :: "('p, 'w) env \<Rightarrow> ('p, 'w) env"

record 'w WebSocketManager =
  warn :: "string \<Rightarrow> 'w \<times> string list \<Rightarrow> 'w \<times> string list"

definition log_info :: "string \<Rightarrow> ('d, 'p, 'w) app \<Rightarrow> ('d, 'p, 'w) app" where
  "log_info msg s = s\<lparr>log := log s @ [msg]\<rparr>"

text \<open>The part of the program state each manager can reach.\<close>

definition device_env :: "('d, 'p, 'w) app \<Rightarrow> ('d, 'w) env" where
  "device_env s = (device_manager s, ws_manager s, log s)"

definition playback_env :: "('d, 'p, 'w) app \<Rightarrow> ('p, 'w) env" where
  "playback_env s = (playback_manager s, ws_manager s, log s)"

text \<open>Running a method of \<^verbatim>\<open>device_manager\<close> in the program state.\<close>

definition on_device_manager ::
  "(('d, 'w) env \<Rightarrow> 'a \<times> ('d, 'w) env) \<Rightarrow> ('d, 'p, 'w) app \<Rightarrow> 'a \<times> ('d, 'p, 'w) app"
where
  "on_device_manager m s =
     (case m (device_env s) of
        (r, d, w, l) \<Rightarrow> (r, s\<lparr>device_manager := d, ws_manager := w, log := l\<rparr>))"

text \<open>Running a method of \<^verbatim>\<open>playback_manager\<close> in the program state.\<close>

definition on_playback_manager ::
  "(('p, 'w) env \<Rightarrow> 'a \<times> ('p, 'w) env) \<Rightarrow> ('d, 'p, 'w) app \<Rightarrow> 'a \<times> ('d, 'p, 'w) app"
where
  "on_playback_manager m s =
     (case m (playback_env s) of
        (r, p, w, l) \<Rightarrow> (r, s\<lparr>playback_manager := p, ws_manager := w, log := l\<rparr>))"

text \<open>Evaluating an attribute of \<^verbatim>\<open>playback_manager\<close> as a statement: the value is dropped.\<close>

definition read_playback_manager ::
  "(('p, 'w) env \<Rightarrow> ('p, 'w) env) \<Rightarrow> ('d, 'p, 'w) app \<Rightarrow> ('d, 'p, 'w) app"
where
  "read_playback_manager m s = snd (on_playback_manager (\<lambda>e. ((), m e)) s)"

text \<open>Running a method of \<^verbatim>\<open>ws_manager\<close> in the program state.\<close>

definition on_ws_manager ::
  "('w \<times> string list \<Rightarrow> 'w \<times> string list) \<Rightarrow> ('d, 'p, 'w) app \<Rightarrow> ('d, 'p, 'w) app"
where
  "on_ws_manager m s =
     (case m (ws_manager s, log s) of (w, l) \<Rightarrow> s\<lparr>ws_manager := w, log := l\<rparr>)"

subsection \<open>The HTTP handlers\<close>

text \<open>
  \<^verbatim>\<open>
  async def bluetooth_connect(action: DeviceAction):
      address = action.address
      log.info(f"request to connect {address} recieved")
      if not (device_manager.connect_device(address)):
          raise ConnectError(address)
      log.info(f"Successfully connected to {address}")
      return {"status": "Connected"}
  \<close>
  A handler returns the exception it raises (\<open>Inl\<close>) or its response (\<open>Inr\<close>), and the
  program state it leaves.
\<close>

definition bluetooth_connect ::
  "('d, 'w) DeviceManager \<Rightarrow> DeviceAction \<Rightarrow> ('d, 'p, 'w) app
     \<Rightarrow> (error + (string \<times> string) list) \<times> ('d, 'p, 'w) app"
where
  "bluetooth_connect dm action s =
     (let address = DeviceAction.address action;
          s1 = log_info (''request to connect '' @ address @ '' recieved'') s;
          (ok, s2) = on_device_manager (connect_device dm address) s1
      in if \<not> ok then (Inl (ConnectError address), s2)
         else (Inr [(''status'', ''Connected'')],
               log_info (''Successfully connected to '' @ address) s2))"

definition bluetooth_disconnect ::
  "('d, 'w) DeviceManager \<Rightarrow> DeviceAction \<Rightarrow> ('d, 'p, 'w) app
     \<Rightarrow> (error + (string \<times> string) list) \<times> ('d, 'p, 'w) app"
where
  "bluetooth_disconnect dm action s =
     (let address = DeviceAction.address action;
          s1 = log_info (''request to disconnect '' @ address @ '' recieved'') s;
          (ok, s2) = on_device_manager (disconnect_device dm address) s1
      in if \<not> ok then (Inl (DisconnectError address), s2)
         else (Inr [(''status'', ''Disconnected'')],
               log_info (''Successfully disconnected from '' @ address) s2))"

text \<open>
  \<^verbatim>\<open>
  async def bluetooth_sink(action: SinkAction):
      if address := action.address:
          log.info(f"Set {address} as new playback device")
          if not device_manager.set_sink(address):
              raise SinkError(f"Could not set sink to {address}")
          return {"message": f"{address} set as new sink"}
      else:
          log.info("Set default as playback device")
          if not device_manager.unset_sinks():
              raise SinkError("Could not set sink to default")
          return {"message": "default set as new sink"}
  \<close>
  The test \<^verbatim>\<open>if address := action.address\<close> is Python's truth test: \<^verbatim>\<open>None\<close> and the
  empty string are false, every other string is true.
\<close>

definition truthy :: "string option \<Rightarrow> bool" where
  "truthy a = (case a of None \<Rightarrow> False | Some x \<Rightarrow> x \<noteq> [])"

definition bluetooth_sink ::
  "('d, 'w) DeviceManager \<Rightarrow> SinkAction \<Rightarrow> ('d, 'p, 'w) app
     \<Rightarrow> (error + (string \<times> string) list) \<times> ('d, 'p, 'w) app"
where
  "bluetooth_sink dm action s =
     (if truthy (SinkAction.address action) then
        (let address = the (SinkAction.address action);
             s1 = log_info (''Set '' @ address @ '' as new playback device'') s;
             (ok, s2) = on_device_manager (set_sink dm address) s1
         in if \<not> ok then (Inl (SinkError (''Could not set sink to '' @ address)), s2)
            else (Inr [(''message'', address @ '' set as new sink'')], s2))
      else
        (let s1 = log_info ''Set default as playback device'' s;
             (ok, s2) = on_device_manager (unset_sinks dm) s1
         in if \<not> ok then (Inl (SinkError ''Could not set sink to default''), s2)
            else (Inr [(''message'', ''default set as new sink'')], s2)))"

text \<open>
  \<^verbatim>\<open>
  async def load_video(action: VideoAction):
      url = action.url
      log.info(f"Request to add {url} recieved")
      video = playback_manager.queue_video_url(url)
      return video.to_dict
  \<close>
\<close>

definition load_video ::
  "('p, 'w, 'v, 'r) PlaybackManager \<Rightarrow> VideoAction \<Rightarrow> ('d, 'p, 'w) app \<Rightarrow> 'r \<times> ('d, 'p, 'w) app"
where
  "load_video pm action s =
     (let url = VideoAction.url action;
          s1 = log_info (''Request to add '' @ url @ '' recieved'') s;
          (video, s2) = on_playback_manager (queue_video_url pm url) s1
      in (to_dict pm video, s2))"

subsection \<open>The websocket handler\<close>

text \<open>
  \<^verbatim>\<open>
  async for data in ws_manager.recieve_data(websocket):
      match data:
          case "play":          playback_manager.play
          case "pause":         playback_manager.pause
          case "next_chapter":  playback_manager.skip_next
          case "prev_chapter":  playback_manager.skip_prev
          case "next_video":    playback_manager.skip_queue
          case _:               ws_manager.warn(f"Unknown data {data}")
  \<close>
  The \<^verbatim>\<open>match\<close> statement takes the first arm whose literal equals \<^verbatim>\<open>data\<close>.
\<close>

datatype arm = Play | Pause | Next_chapter | Prev_chapter | Next_video | Unknown

definition match_data :: "string \<Rightarrow> arm" where
  "match_data data =
     (if data = ''play'' then Play
      else if data = ''pause'' then Pause
      else if data = ''next_chapter'' then Next_chapter
      else if data = ''prev_chapter'' then Prev_chapter
      else if data = ''next_video'' then Next_video
      else Unknown)"

text \<open>The body of the loop, for one message.\<close>

definition on_data ::
  "('p, 'w, 'v, 'r) PlaybackManager \<Rightarrow> 'w WebSocketManager \<Rightarrow> string
     \<Rightarrow> ('d, 'p, 'w) app \<Rightarrow> ('d, 'p, 'w) app"
where
  "on_data pm wm data s =
     (case match_data data of
        Play \<Rightarrow> read_playback_manager (play pm) s
      | Pause \<Rightarrow> read_playback_manager (pause pm) s
      | Next_chapter \<Rightarrow> read_playback_manager (skip_next pm) s
      | Prev_chapter \<Rightarrow> read_playback_manager (skip_prev pm) s
      | Next_video \<Rightarrow> read_playback_manager (skip_queue pm) s
      | Unknown \<Rightarrow> on_ws_manager (warn wm (''Unknown data '' @ data)) s)"

text \<open>
  The loop, over the messages \<^verbatim>\<open>ws_manager.recieve_data(websocket)\<close> yields on one
  connection. No arm leaves the loop, so it ends only when the messages do.
\<close>

fun websocket_endpoint ::
  "('p, 'w, 'v, 'r) PlaybackManager \<Rightarrow> 'w WebSocketManager \<Rightarrow> string list
     \<Rightarrow> ('d, 'p, 'w) app \<Rightarrow> ('d, 'p, 'w) app"
where
  "websocket_endpoint pm wm [] s = s"
| "websocket_endpoint pm wm (data # rest) s = websocket_endpoint pm wm rest (on_data pm wm data s)"

section \<open>The device registry\<close>

text \<open>
  The methods of \<^verbatim>\<open>DeviceManager\<close> are not in \<^verbatim>\<open>main.py\<close>. What they do to the devices
  is taken from the specification: its data model (section 3) and the contract of the
  connection coordinator (sections 4.2, 6 and 7).
\<close>

text \<open>
  Modelled from the spec: the devices \<^verbatim>\<open>DeviceManager\<close> keeps (its class is in
  \<^verbatim>\<open>devices.py\<close>, which is missing). The \<^verbatim>\<open>Device\<close> of the data model has identity
  address and attributes display name, connected and is-current-sink.
\<close>

record Device =
  address :: string
  name :: string
  connected :: bool
  is_current_sink :: bool

text \<open>
  Modelled from the spec: the events published through \<^verbatim>\<open>ws_manager.notifier\<close> (the
  notifier is in \<^verbatim>\<open>websockets.py\<close>, which is missing), by the kinds the data model lists.
\<close>

datatype Event =
  Device_list_changed | Sink_changed | Queue_changed | Playback_state_changed
  | Warning string

text \<open>
  Modelled from the spec: the hardware layer \<^verbatim>\<open>DeviceManager\<close> drives, which is missing
  with it; the collaborator of section 6,
  \<^verbatim>\<open>connect(address) -> bool\<close>, \<^verbatim>\<open>disconnect(address) -> bool\<close>,
  \<^verbatim>\<open>setSink(address|none) -> bool\<close>. It is a parameter with a state of its own, so the
  same request may succeed at one time and fail at another.
\<close>

datatype hw_request = Hw_connect string | Hw_disconnect string | Hw_set_sink "string option"

type_synonym 'h hardware_layer = "hw_request \<Rightarrow> 'h \<Rightarrow> bool \<times> 'h"

text \<open>
  Modelled from the spec: the state of the missing \<^verbatim>\<open>DeviceManager\<close>, the known devices in
  the order they were found and the state of the hardware.
\<close>

record 'h devices =
  registry :: "Device list"
  hardware :: 'h

text \<open>
  Modelled from the spec: \<^verbatim>\<open>DeviceManager.connect_device\<close>, missing with
  \<^verbatim>\<open>devices.py\<close>; the contract of \<^verbatim>\<open>connect(address)\<close>. "On success, updates Device.connected =
  true and publishes device-list-changed; on failure, leaves state unchanged."
\<close>

definition spec_connect_device ::
  "'h hardware_layer \<Rightarrow> string \<Rightarrow> ('h devices, Event list) env
     \<Rightarrow> bool \<times> ('h devices, Event list) env"
where
  "spec_connect_device hw a e =
     (case e of (d, w, l) \<Rightarrow>
        (case hw (Hw_connect a) (hardware d) of (ok, h) \<Rightarrow>
           if ok then
             (True,
              \<lparr>registry = map (\<lambda>x. if address x = a then x\<lparr>connected := True\<rparr> else x) (registry d),
               hardware = h\<rparr>,
              w @ [Device_list_changed], l)
           else (False, d\<lparr>hardware := h\<rparr>, w, l)))"

text \<open>
  Modelled from the spec: \<^verbatim>\<open>DeviceManager.disconnect_device\<close>, missing with
  \<^verbatim>\<open>devices.py\<close>; the contract of \<^verbatim>\<open>disconnect(address)\<close>. "On success sets connected = false
  (and is-current-sink = false if it was the sink) and publishes device-list-changed
  and, if applicable, sink-changed."
\<close>

definition spec_disconnect_device ::
  "'h hardware_layer \<Rightarrow> string \<Rightarrow> ('h devices, Event list) env
     \<Rightarrow> bool \<times> ('h devices, Event list) env"
where
  "spec_disconnect_device hw a e =
     (case e of (d, w, l) \<Rightarrow>
        (case hw (Hw_disconnect a) (hardware d) of (ok, h) \<Rightarrow>
           if ok then
             (True,
              \<lparr>registry =
                 map (\<lambda>x. if address x = a then x\<lparr>connected := False, is_current_sink := False\<rparr>
                          else x) (registry d),
               hardware = h\<rparr>,
              w @ [Device_list_changed]
                @ (if list_ex (\<lambda>x. address x = a \<and> is_current_sink x) (registry d)
                   then [Sink_changed] else []),
              l)
           else (False, d\<lparr>hardware := h\<rparr>, w, l)))"

text \<open>
  Modelled from the spec: \<^verbatim>\<open>DeviceManager.set_sink\<close>, missing with \<^verbatim>\<open>devices.py\<close>;
  the contract of \<^verbatim>\<open>setSink(address)\<close>. "If an address is given, marks that
  device is-current-sink = true and clears the flag on any other device"; a failure
  leaves the devices as they were.
\<close>

definition spec_set_sink ::
  "'h hardware_layer \<Rightarrow> string \<Rightarrow> ('h devices, Event list) env
     \<Rightarrow> bool \<times> ('h devices, Event list) env"
where
  "spec_set_sink hw a e =
     (case e of (d, w, l) \<Rightarrow>
        (case hw (Hw_set_sink (Some a)) (hardware d) of (ok, h) \<Rightarrow>
           if ok then
             (True,
              \<lparr>registry = map (\<lambda>x. x\<lparr>is_current_sink := (address x = a)\<rparr>) (registry d),
               hardware = h\<rparr>,
              w @ [Sink_changed], l)
           else (False, d\<lparr>hardware := h\<rparr>, w, l)))"

text \<open>
  Modelled from the spec: \<^verbatim>\<open>DeviceManager.unset_sinks\<close>, missing with
  \<^verbatim>\<open>devices.py\<close>; the contract of \<^verbatim>\<open>setSink(none)\<close>. "If no address is given ("unset"), clears
  the flag on all devices."
\<close>

definition spec_unset_sinks ::
  "'h hardware_layer \<Rightarrow> ('h devices, Event list) env \<Rightarrow> bool \<times> ('h devices, Event list) env"
where
  "spec_unset_sinks hw e =
     (case e of (d, w, l) \<Rightarrow>
        (case hw (Hw_set_sink None) (hardware d) of (ok, h) \<Rightarrow>
           if ok then
             (True,
              \<lparr>registry = map (\<lambda>x. x\<lparr>is_current_sink := False\<rparr>) (registry d), hardware = h\<rparr>,
              w @ [Sink_changed], l)
           else (False, d\<lparr>hardware := h\<rparr>, w, l)))"

text \<open>
  Modelled from the spec: the \<^verbatim>\<open>device_manager\<close> object \<^verbatim>\<open>main.py\<close> calls, whose class is
  missing; the four methods above, over a hardware layer.
\<close>

definition spec_device_manager :: "'h hardware_layer \<Rightarrow> ('h devices, Event list) DeviceManager" where
  "spec_device_manager hw =
     \<lparr>connect_device = spec_connect_device hw,
      disconnect_device = spec_disconnect_device hw,
      set_sink = spec_set_sink hw,
      unset_sinks = spec_unset_sinks hw\<rparr>"

text \<open>The invariant of the data model: at most one device is the current sink.\<close>

definition at_most_one_sink :: "Device list \<Rightarrow> bool" where
  "at_most_one_sink ds = (length (filter is_current_sink ds) \<le> 1)"

text \<open>
  A sequence of \<^verbatim>\<open>PUT /devices/set-sink\<close> requests. \<^verbatim>\<open>bluetooth_sink\<close> has no
  \<^verbatim>\<open>await\<close>, so one request runs to its end before the next starts; the result lists the
  program state observed after each request.
\<close>

fun sink_requests ::
  "('d, 'w) DeviceManager \<Rightarrow> SinkAction list \<Rightarrow> ('d, 'p, 'w) app \<Rightarrow> ('d, 'p, 'w) app list"
where
  "sink_requests dm [] s = []"
| "sink_requests dm (action # rest) s =
     (let s' = snd (bluetooth_sink dm action s) in s' # sink_requests dm rest s')"

section \<open>The playback queue\<close>

text \<open>
  \<^verbatim>\<open>PlaybackManager.queue_video_url\<close> is not in \<^verbatim>\<open>main.py\<close>. What it does to the queue is
  taken from the specification: its data model (section 3) and the contract of
  \<^verbatim>\<open>queueVideo\<close> (sections 4.3 and 6).
\<close>

text \<open>
  Modelled from the spec: the items \<^verbatim>\<open>PlaybackManager\<close> queues (its class is in
  \<^verbatim>\<open>playback.py\<close>, which is missing). A \<^verbatim>\<open>QueueItem\<close> has a source URL, display metadata
  (title and duration) that an external resolver fills in, and a status.
\<close>

datatype item_status = Queued | Playing | Played

record QueueItem =
  source_url :: string
  metadata :: "(string \<times> nat) option"
  status :: item_status

text \<open>
  Modelled from the spec: the state of the missing \<^verbatim>\<open>PlaybackManager\<close>, the queue in
  insertion order, the cursor (an index, or \<^verbatim>\<open>None\<close>) and the transport flag.
\<close>

datatype transport = Transport_playing | Transport_paused

record playback =
  queue :: "QueueItem list"
  cursor :: "nat option"
  transport :: transport

text \<open>
  Modelled from the spec: the item \<^verbatim>\<open>queueVideo(url)\<close> creates. The media resolver
  \<^verbatim>\<open>resolve(url)\<close> of section 6 is a parameter; where it fails the item keeps placeholder
  metadata (\<^verbatim>\<open>None\<close>), the choice under which \<^verbatim>\<open>load_video\<close>, which handles no rejection,
  always has an item to return. "Appends a new item with status = queued, and if the
  queue was empty, sets it to playing."
\<close>

definition spec_new_item ::
  "(string \<Rightarrow> (string \<times> nat) option) \<Rightarrow> string \<Rightarrow> QueueItem list \<Rightarrow> QueueItem"
where
  "spec_new_item resolve u q =
     \<lparr>source_url = u, metadata = resolve u, status = (if q = [] then Playing else Queued)\<rparr>"

text \<open>
  Modelled from the spec: \<^verbatim>\<open>PlaybackManager.queue_video_url\<close>, missing with
  \<^verbatim>\<open>playback.py\<close>; the contract of \<^verbatim>\<open>queueVideo(url)\<close>. It appends the new item, "and if
  the queue was empty, sets it to playing and sets cursor to this item. Publishes
  queue-changed (and playback-state-changed if the queue transitioned from empty).
  Returns the created item's representation."
\<close>

definition spec_queue_video_url ::
  "(string \<Rightarrow> (string \<times> nat) option) \<Rightarrow> string \<Rightarrow> (playback, Event list) env
     \<Rightarrow> QueueItem \<times> (playback, Event list) env"
where
  "spec_queue_video_url resolve u e =
     (case e of (p, w, l) \<Rightarrow>
        (let item = spec_new_item resolve u (queue p) in
         if queue p = [] then
           (item,
            \<lparr>queue = [item], cursor = Some 0, transport = Transport_playing\<rparr>,
            w @ [Queue_changed, Playback_state_changed], l)
         else (item, p\<lparr>queue := queue p @ [item]\<rparr>, w @ [Queue_changed], l)))"

section \<open>Example managers\<close>

text \<open>
  Small instances of the three classes, on which the theorems below are exhibited at
  concrete inputs. The device manager keeps the connected addresses and the current
  sink, and accepts a sink only among the connected addresses; the playback manager keeps
  the queued urls and a journal of the transport attributes evaluated; the websocket
  manager keeps the warnings sent. The hardware layer reaches the addresses in its state.
\<close>

definition example_device_manager :: "(string list \<times> string option, string list) DeviceManager" where
  "example_device_manager =
     \<lparr>connect_device = (\<lambda>a ((c, k), w, l).
        if a \<in> set c then (False, (c, k), w, l) else (True, (a # c, k), w @ [''devices''], l)),
      disconnect_device = (\<lambda>a ((c, k), w, l).
        if a \<in> set c
        then (True, (removeAll a c, if k = Some a then None else k), w @ [''devices''], l)
        else (False, (c, k), w, l)),
      set_sink = (\<lambda>a ((c, k), w, l).
        if a \<in> set c then (True, (c, Some a), w @ [''sink''], l) else (False, (c, k), w, l)),
      unset_sinks = (\<lambda>((c, k), w, l). (True, (c, None), w @ [''sink''], l))\<rparr>"

definition example_playback_manager ::
  "(string list \<times> string list, string list, string, (string \<times> string) list) PlaybackManager"
where
  "example_playback_manager =
     \<lparr>queue_video_url = (\<lambda>u ((q, j), w, l). (u, (q @ [u], j), w @ [''queue''], l)),
      to_dict = (\<lambda>v. [(''url'', v)]),
      play = (\<lambda>((q, j), w, l). ((q, j @ [''play'']), w, l)),
      pause = (\<lambda>((q, j), w, l). ((q, j @ [''pause'']), w, l)),
      skip_next = (\<lambda>((q, j), w, l). ((q, j @ [''skip_next'']), w, l)),
      skip_prev = (\<lambda>((q, j), w, l). ((q, j @ [''skip_prev'']), w, l)),
      skip_queue = (\<lambda>((q, j), w, l). ((q, j @ [''skip_queue'']), w, l))\<rparr>"

definition example_ws_manager :: "string list WebSocketManager" where
  "example_ws_manager = \<lparr>warn = (\<lambda>msg (w, l). (w @ [msg], l @ [msg]))\<rparr>"

definition example_hardware :: "string list hardware_layer" where
  "example_hardware req h =
     (case req of
        Hw_connect a \<Rightarrow> (a \<in> set h, h)
      | Hw_disconnect a \<Rightarrow> (a \<in> set h, h)
      | Hw_set_sink None \<Rightarrow> (True, h)
      | Hw_set_sink (Some a) \<Rightarrow> (a \<in> set h, h))"

definition example_app :: "(string list \<times> string option, string list \<times> string list, string list) app" where
  "example_app =
     \<lparr>device_manager = ([''AA:01''], None), playback_manager = ([], []), ws_manager = [],
      log = []\<rparr>"

definition example_registry :: "Device list" where
  "example_registry =
     [\<lparr>address = ''AA:01'', name = ''Speaker'', connected = True, is_current_sink = False\<rparr>,
      \<lparr>address = ''AA:02'', name = ''Headset'', connected = True, is_current_sink = True\<rparr>,
      \<lparr>address = ''AA:03'', name = ''Television'', connected = False, is_current_sink = False\<rparr>]"

definition example_spec_app :: "(string list devices, unit, Event list) app" where
  "example_spec_app =
     \<lparr>device_manager = \<lparr>registry = example_registry, hardware = [''AA:01'', ''AA:02'']\<rparr>,
      playback_manager = (), ws_manager = [], log = []\<rparr>"

text \<open>A sequence of set-sink requests: set, set to a device out of reach, unset, set, empty address.\<close>

definition example_actions :: "SinkAction list" where
  "example_actions =
     [SinkAction (Some ''AA:01''), SinkAction (Some ''AA:03''), SinkAction None,
      SinkAction (Some ''AA:02''), SinkAction (Some [])]"

text \<open>
  A playback manager that queues as the specification says, over a resolver that knows
  one address. Only queueing is exhibited on it, so its transport attributes do nothing.
\<close>

definition example_resolve :: "string \<Rightarrow> (string \<times> nat) option" where
  "example_resolve u = (if u = ''https://youtu.be/x'' then Some (''Sea shanties'', 1800) else None)"

definition example_item_dict :: "QueueItem \<Rightarrow> (string \<times> string) list" where
  "example_item_dict v =
     [(''url'', source_url v),
      (''title'', case metadata v of None \<Rightarrow> ''unknown'' | Some (t, _) \<Rightarrow> t)]"

definition example_spec_playback_manager ::
  "(playback, Event list, QueueItem, (string \<times> string) list) PlaybackManager"
where
  "example_spec_playback_manager =
     \<lparr>queue_video_url = spec_queue_video_url example_resolve,
      to_dict = example_item_dict,
      play = id, pause = id, skip_next = id, skip_prev = id, skip_queue = id\<rparr>"

definition example_playback_app :: "(unit, playback, Event list) app" where
  "example_playback_app =
     \<lparr>device_manager = (),
      playback_manager =
        \<lparr>queue = [\<lparr>source_url = ''https://youtu.be/w'', metadata = None, status = Playing\<rparr>],
         cursor = Some 0, transport = Transport_playing\<rparr>,
      ws_manager = [], log = []\<rparr>"

section \<open>Properties\<close>

lemma on_device_manager_env:
  "device_env (snd (on_device_manager m s)) = snd (m (device_env s))"
  "fst (on_device_manager m s) = fst (m (device_env s))"
  "playback_manager (snd (on_device_manager m s)) = playback_manager s"
  "device_manager (snd (on_device_manager m s)) = fst (snd (m (device_env s)))"
  by (simp_all add: on_device_manager_def device_env_def split: prod.splits)

lemma on_playback_manager_env:
  "playback_env (snd (on_playback_manager m s)) = snd (m (playback_env s))"
  "fst (on_playback_manager m s) = fst (m (playback_env s))"
  "device_manager (snd (on_playback_manager m s)) = device_manager s"
  "playback_manager (snd (on_playback_manager m s)) = fst (snd (m (playback_env s)))"
  by (simp_all add: on_playback_manager_def playback_env_def split: prod.splits)

lemma log_info_fields:
  "device_manager (log_info msg s) = device_manager s"
  "playback_manager (log_info msg s) = playback_manager s"
  "ws_manager (log_info msg s) = ws_manager s"
  "log (log_info msg s) = log s @ [msg]"
  by (simp_all add: log_info_def)

text \<open>
  C5. For every address, \<^verbatim>\<open>bluetooth_disconnect\<close> returns the success response
  \<^verbatim>\<open>{"status": "Disconnected"}\<close> when \<^verbatim>\<open>device_manager.disconnect_device(address)\<close>
  succeeds, and raises \<^verbatim>\<open>DisconnectError(address)\<close>, carrying that address, when it
  fails. The call is made in the state left by logging the request.
\<close>

theorem bluetooth_disconnect_result:
  "fst (bluetooth_disconnect dm (DeviceAction a) s) =
     (if fst (disconnect_device dm a
                (device_env (log_info (''request to disconnect '' @ a @ '' recieved'') s)))
      then Inr [(''status'', ''Disconnected'')]
      else Inl (DisconnectError a))"
  by (simp add: bluetooth_disconnect_def Let_def split_beta on_device_manager_env)

lemma connect_failure_registry:
  fixes t :: "('h devices, 'p, Event list) app" and hw :: "'h hardware_layer"
  assumes "fst (bluetooth_connect (spec_device_manager hw) (DeviceAction a) t)
             = Inl (ConnectError a)"
  shows "registry (device_manager (snd (bluetooth_connect (spec_device_manager hw)
            (DeviceAction a) t))) = registry (device_manager t)
     \<and> ws_manager (snd (bluetooth_connect (spec_device_manager hw) (DeviceAction a) t))
         = ws_manager t"
  using assms
  by (auto simp: bluetooth_connect_def spec_device_manager_def spec_connect_device_def
      on_device_manager_def device_env_def log_info_def Let_def
      split: prod.splits if_splits)

text \<open>
  C4. For every address and every device manager, \<^verbatim>\<open>bluetooth_connect\<close> returns the
  success response \<^verbatim>\<open>{"status": "Connected"}\<close> when
  \<^verbatim>\<open>device_manager.connect_device(address)\<close> succeeds and raises
  \<^verbatim>\<open>ConnectError(address)\<close>, carrying that address, when it fails; the handler changes no
  device state itself and leaves the playback state alone. Over the device manager of
  the specification the connect succeeds exactly when the hardware accepts it, and a
  request that raises \<^verbatim>\<open>ConnectError\<close> leaves the registry of devices, the published
  events and the playback state as they were.
\<close>

theorem bluetooth_connect_result:
  fixes s :: "('d, 'p, 'w) app" and dm :: "('d, 'w) DeviceManager"
    and t :: "('h devices, 'q, Event list) app" and hw :: "'h hardware_layer"
  shows "(let c = connect_device dm a
             (device_env (log_info (''request to connect '' @ a @ '' recieved'') s));
       r = bluetooth_connect dm (DeviceAction a) s
   in fst r = (if fst c then Inr [(''status'', ''Connected'')] else Inl (ConnectError a))
      \<and> device_manager (snd r) = fst (snd c)
      \<and> playback_manager (snd r) = playback_manager s)
   \<and> (let r = bluetooth_connect (spec_device_manager hw) (DeviceAction a) t
       in fst r = (if fst (hw (Hw_connect a) (hardware (device_manager t)))
                   then Inr [(''status'', ''Connected'')] else Inl (ConnectError a))
          \<and> (fst r = Inl (ConnectError a)
               \<longrightarrow> registry (device_manager (snd r)) = registry (device_manager t)
                   \<and> ws_manager (snd r) = ws_manager t
                   \<and> playback_manager (snd r) = playback_manager t))"
proof -
  have general: "let c = connect_device dm a
             (device_env (log_info (''request to connect '' @ a @ '' recieved'') s));
       r = bluetooth_connect dm (DeviceAction a) s
   in fst r = (if fst c then Inr [(''status'', ''Connected'')] else Inl (ConnectError a))
      \<and> device_manager (snd r) = fst (snd c)
      \<and> playback_manager (snd r) = playback_manager s"
    for dm :: "('d, 'w) DeviceManager" and s :: "('d, 'p, 'w) app"
    by (simp add: bluetooth_connect_def Let_def split_beta on_device_manager_env log_info_fields)
  have response: "fst (bluetooth_connect (spec_device_manager hw) (DeviceAction a) t)
      = (if fst (hw (Hw_connect a) (hardware (device_manager t)))
         then Inr [(''status'', ''Connected'')] else Inl (ConnectError a))"
    by (simp add: bluetooth_connect_def spec_device_manager_def spec_connect_device_def
        on_device_manager_def device_env_def log_info_def Let_def split: prod.splits)
  have frame: "playback_manager (snd (bluetooth_connect (spec_device_manager hw)
      (DeviceAction a) t)) = playback_manager t"
    by (simp add: bluetooth_connect_def Let_def split_beta on_device_manager_env
        log_info_fields)
  show ?thesis
    using general connect_failure_registry [of hw a t] response frame
    by (simp add: Let_def)
qed

text \<open>
  At the example registry, whose hardware does not reach \<^verbatim>\<open>AA:03\<close>: the connect fails and
  every device is as before. At the example device manager the same address connects.
\<close>

theorem bluetooth_connect_result_witness:
  "fst (bluetooth_connect (spec_device_manager example_hardware) (DeviceAction ''AA:03'')
          example_spec_app) = Inl (ConnectError ''AA:03'')
   \<and> registry (device_manager (snd (bluetooth_connect (spec_device_manager example_hardware)
          (DeviceAction ''AA:03'') example_spec_app))) = example_registry
   \<and> fst (bluetooth_connect example_device_manager (DeviceAction ''AA:03'') example_app)
       = Inr [(''status'', ''Connected'')]"
  using bluetooth_connect_result [where dm = example_device_manager and a = "''AA:03''"
      and s = example_app and hw = example_hardware and t = example_spec_app]
  by (simp add: Let_def example_device_manager_def example_app_def device_env_def log_info_def
      example_hardware_def example_spec_app_def)

text \<open>
  C6. For every set-sink request and every device manager: with an address (a non-empty
  string), \<^verbatim>\<open>bluetooth_sink\<close> calls \<^verbatim>\<open>device_manager.set_sink(address)\<close>, the devices are
  left as that call left them, and the response names the address as the new sink; with
  no address it calls \<^verbatim>\<open>device_manager.unset_sinks()\<close> and the response names the default.
  In either branch a failed call raises \<^verbatim>\<open>SinkError\<close>. Over the device manager of the
  specification, a request with an address that succeeds marks the devices of that
  address as the current sink and clears the flag on every other device, a request with
  no address that succeeds clears the flag on all devices, and a request that raises
  \<^verbatim>\<open>SinkError\<close> leaves every flag as it was.
\<close>

theorem bluetooth_sink_result:
  fixes s :: "('d, 'p, 'w) app" and dm :: "('d, 'w) DeviceManager"
    and t :: "('h devices, 'q, Event list) app" and hw :: "'h hardware_layer"
  shows "(a \<noteq> [] \<longrightarrow>
      (let c = set_sink dm a (device_env (log_info (''Set '' @ a @ '' as new playback device'') s));
           r = bluetooth_sink dm (SinkAction (Some a)) s
       in fst r = (if fst c then Inr [(''message'', a @ '' set as new sink'')]
                   else Inl (SinkError (''Could not set sink to '' @ a)))
          \<and> device_env (snd r) = snd c
          \<and> playback_manager (snd r) = playback_manager s))
   \<and> (let c = unset_sinks dm (device_env (log_info ''Set default as playback device'' s));
           r = bluetooth_sink dm (SinkAction None) s
       in fst r = (if fst c then Inr [(''message'', ''default set as new sink'')]
                   else Inl (SinkError ''Could not set sink to default''))
          \<and> device_env (snd r) = snd c
          \<and> playback_manager (snd r) = playback_manager s)
   \<and> (a \<noteq> [] \<longrightarrow>
      (let r = bluetooth_sink (spec_device_manager hw) (SinkAction (Some a)) t
       in fst r = (if fst (hw (Hw_set_sink (Some a)) (hardware (device_manager t)))
                   then Inr [(''message'', a @ '' set as new sink'')]
                   else Inl (SinkError (''Could not set sink to '' @ a)))
          \<and> registry (device_manager (snd r))
              = (if fst (hw (Hw_set_sink (Some a)) (hardware (device_manager t)))
                 then map (\<lambda>d. d\<lparr>is_current_sink := (address d = a)\<rparr>)
                        (registry (device_manager t))
                 else registry (device_manager t))))
   \<and> (let r = bluetooth_sink (spec_device_manager hw) (SinkAction None) t
       in fst r = (if fst (hw (Hw_set_sink None) (hardware (device_manager t)))
                   then Inr [(''message'', ''default set as new sink'')]
                   else Inl (SinkError ''Could not set sink to default''))
          \<and> registry (device_manager (snd r))
              = (if fst (hw (Hw_set_sink None) (hardware (device_manager t)))
                 then map (\<lambda>d. d\<lparr>is_current_sink := False\<rparr>) (registry (device_manager t))
                 else registry (device_manager t)))"
proof -
  have general: "(a \<noteq> [] \<longrightarrow>
      (let c = set_sink dm a (device_env (log_info (''Set '' @ a @ '' as new playback device'') s));
           r = bluetooth_sink dm (SinkAction (Some a)) s
       in fst r = (if fst c then Inr [(''message'', a @ '' set as new sink'')]
                   else Inl (SinkError (''Could not set sink to '' @ a)))
          \<and> device_env (snd r) = snd c
          \<and> playback_manager (snd r) = playback_manager s))
   \<and> (let c = unset_sinks dm (device_env (log_info ''Set default as playback device'' s));
           r = bluetooth_sink dm (SinkAction None) s
       in fst r = (if fst c then Inr [(''message'', ''default set as new sink'')]
                   else Inl (SinkError ''Could not set sink to default''))
          \<and> device_env (snd r) = snd c
          \<and> playback_manager (snd r) = playback_manager s)"
    by (simp add: bluetooth_sink_def truthy_def Let_def split_beta on_device_manager_env
        log_info_fields)
  have mark: "a \<noteq> [] \<longrightarrow>
      (let r = bluetooth_sink (spec_device_manager hw) (SinkAction (Some a)) t
       in fst r = (if fst (hw (Hw_set_sink (Some a)) (hardware (device_manager t)))
                   then Inr [(''message'', a @ '' set as new sink'')]
                   else Inl (SinkError (''Could not set sink to '' @ a)))
          \<and> registry (device_manager (snd r))
              = (if fst (hw (Hw_set_sink (Some a)) (hardware (device_manager t)))
                 then map (\<lambda>d. d\<lparr>is_current_sink := (address d = a)\<rparr>)
                        (registry (device_manager t))
                 else registry (device_manager t)))"
    by (simp add: bluetooth_sink_def spec_device_manager_def spec_set_sink_def
        on_device_manager_def device_env_def log_info_def truthy_def Let_def
        split: prod.splits)
  have clear: "let r = bluetooth_sink (spec_device_manager hw) (SinkAction None) t
       in fst r = (if fst (hw (Hw_set_sink None) (hardware (device_manager t)))
                   then Inr [(''message'', ''default set as new sink'')]
                   else Inl (SinkError ''Could not set sink to default''))
          \<and> registry (device_manager (snd r))
              = (if fst (hw (Hw_set_sink None) (hardware (device_manager t)))
                 then map (\<lambda>d. d\<lparr>is_current_sink := False\<rparr>) (registry (device_manager t))
                 else registry (device_manager t))"
    by (simp add: bluetooth_sink_def spec_device_manager_def spec_unset_sinks_def
        on_device_manager_def device_env_def log_info_def truthy_def Let_def
        split: prod.splits)
  from general mark clear show ?thesis
    by blast
qed

text \<open>
  At the example device manager and at the example registry, where the sink moves from the
  second device to the first, a device out of reach of the hardware raises \<^verbatim>\<open>SinkError\<close>
  and leaves the sink where it was, and an unset request leaves no sink.
\<close>

theorem bluetooth_sink_result_witness:
  "''AA:01'' \<noteq> []
   \<and> fst (bluetooth_sink example_device_manager (SinkAction (Some ''AA:01'')) example_app)
       = Inr [(''message'', ''AA:01 set as new sink'')]
   \<and> fst (bluetooth_sink example_device_manager (SinkAction (Some ''AA:03'')) example_app)
       = Inl (SinkError ''Could not set sink to AA:03'')
   \<and> fst (bluetooth_sink example_device_manager (SinkAction None) example_app)
       = Inr [(''message'', ''default set as new sink'')]
   \<and> fst (bluetooth_sink (spec_device_manager example_hardware) (SinkAction (Some ''AA:01''))
          example_spec_app) = Inr [(''message'', ''AA:01 set as new sink'')]
   \<and> map is_current_sink (registry (device_manager (snd (bluetooth_sink
          (spec_device_manager example_hardware) (SinkAction (Some ''AA:01''))
          example_spec_app)))) = [True, False, False]
   \<and> fst (bluetooth_sink (spec_device_manager example_hardware) (SinkAction (Some ''AA:03''))
          example_spec_app) = Inl (SinkError ''Could not set sink to AA:03'')
   \<and> map is_current_sink (registry (device_manager (snd (bluetooth_sink
          (spec_device_manager example_hardware) (SinkAction (Some ''AA:03''))
          example_spec_app)))) = [False, True, False]
   \<and> map is_current_sink (registry (device_manager (snd (bluetooth_sink
          (spec_device_manager example_hardware) (SinkAction None)
          example_spec_app)))) = [False, False, False]"
  using bluetooth_sink_result [where dm = example_device_manager and a = "''AA:01''"
      and s = example_app and hw = example_hardware and t = example_spec_app]
    bluetooth_sink_result [where dm = example_device_manager and a = "''AA:03''"
      and s = example_app and hw = example_hardware and t = example_spec_app]
  by (simp add: Let_def example_device_manager_def example_app_def device_env_def log_info_def
      example_hardware_def example_spec_app_def example_registry_def)

text \<open>
  C9. An address is false for \<^verbatim>\<open>bluetooth_sink\<close> exactly when it is \<^verbatim>\<open>None\<close> or the
  empty string. A request whose address is the empty string behaves as the request with
  no address: it calls \<^verbatim>\<open>unset_sinks\<close>, reports the default sink message, and does not
  depend on \<^verbatim>\<open>set_sink\<close> at all.
\<close>

theorem empty_address_unsets:
  "truthy x = (x \<noteq> None \<and> x \<noteq> Some [])
   \<and> bluetooth_sink dm (SinkAction (Some [])) s = bluetooth_sink dm (SinkAction None) s
   \<and> (let c = unset_sinks dm (device_env (log_info ''Set default as playback device'' s));
           r = bluetooth_sink dm (SinkAction (Some [])) s
       in fst r = (if fst c then Inr [(''message'', ''default set as new sink'')]
                   else Inl (SinkError ''Could not set sink to default''))
          \<and> device_env (snd r) = snd c)
   \<and> bluetooth_sink (dm\<lparr>set_sink := f\<rparr>) (SinkAction (Some [])) s
       = bluetooth_sink dm (SinkAction (Some [])) s"
  by (simp add: bluetooth_sink_def truthy_def Let_def split_beta on_device_manager_env
        split: option.splits)



text \<open>
  C10. Command recognition is exact: each arm is taken for its literal and for no other
  string, so exactly one arm applies to a message, and the default arm is taken exactly
  for the strings that are none of the five literals. A string that differs in case or
  by a space, such as \<^verbatim>\<open>"Play"\<close> or \<^verbatim>\<open>"play "\<close>, takes the default arm and is warned
  about.
\<close>

theorem match_data_exact:
  "(match_data data = Play) = (data = ''play'')
   \<and> (match_data data = Pause) = (data = ''pause'')
   \<and> (match_data data = Next_chapter) = (data = ''next_chapter'')
   \<and> (match_data data = Prev_chapter) = (data = ''prev_chapter'')
   \<and> (match_data data = Next_video) = (data = ''next_video'')
   \<and> (match_data data = Unknown)
       = (data \<notin> {''play'', ''pause'', ''next_chapter'', ''prev_chapter'', ''next_video''})
   \<and> match_data ''Play'' = Unknown
   \<and> match_data ''play '' = Unknown
   \<and> match_data '' play'' = Unknown
   \<and> match_data ''PAUSE'' = Unknown
   \<and> on_data pm wm ''Play'' s = on_ws_manager (warn wm ''Unknown data Play'') s
   \<and> on_data pm wm ''play '' s = on_ws_manager (warn wm ''Unknown data play '') s"
  by (simp add: match_data_def on_data_def)

lemma on_ws_manager_fields:
  "playback_manager (on_ws_manager m s) = playback_manager s"
  "device_manager (on_ws_manager m s) = device_manager s"
  by (simp_all add: on_ws_manager_def split: prod.splits)

lemma websocket_endpoint_fold:
  "websocket_endpoint pm wm msgs s = fold (on_data pm wm) msgs s"
  by (induction msgs arbitrary: s) simp_all

text \<open>
  C2. For a message that is none of the five commands, the handler calls
  \<^verbatim>\<open>ws_manager.warn\<close> with \<^verbatim>\<open>"Unknown data "\<close> followed by the message, leaves the
  playback state and the device state as they were, and the loop goes on: wherever the
  message stands among the messages of a connection, every message after it is handled,
  in order and by its own arm, from the state the warning left.
\<close>

theorem unknown_data_warns:
  assumes "data \<notin> {''play'', ''pause'', ''next_chapter'', ''prev_chapter'', ''next_video''}"
  shows "on_data pm wm data s = on_ws_manager (warn wm (''Unknown data '' @ data)) s
     \<and> playback_manager (on_data pm wm data s) = playback_manager s
     \<and> device_manager (on_data pm wm data s) = device_manager s
     \<and> websocket_endpoint pm wm (data # rest) s
         = websocket_endpoint pm wm rest (on_ws_manager (warn wm (''Unknown data '' @ data)) s)
     \<and> websocket_endpoint pm wm [data, cmd] s
         = on_data pm wm cmd (on_ws_manager (warn wm (''Unknown data '' @ data)) s)
     \<and> websocket_endpoint pm wm (before @ data # rest) s
         = fold (on_data pm wm) rest
             (on_ws_manager (warn wm (''Unknown data '' @ data)) (fold (on_data pm wm) before s))"
proof -
  from assms have "match_data data = Unknown"
    by (simp add: match_data_def)
  then have w: "on_data pm wm data t = on_ws_manager (warn wm (''Unknown data '' @ data)) t" for t
    by (simp add: on_data_def)
  show ?thesis
    by (simp add: w on_ws_manager_fields websocket_endpoint_fold)
qed

text \<open>
  The scenario of the specification, with commands on both sides: \<^verbatim>\<open>"frobnicate"\<close> is
  warned about, and the three commands that follow it on the same connection are all
  dispatched.
\<close>

theorem unknown_data_warns_witness:
  "''frobnicate'' \<notin> {''play'', ''pause'', ''next_chapter'', ''prev_chapter'', ''next_video''}
   \<and> websocket_endpoint example_playback_manager example_ws_manager
        [''pause'', ''frobnicate'', ''play'', ''next_video'', ''pause''] example_app
       = example_app\<lparr>playback_manager := ([], [''pause'', ''play'', ''skip_queue'', ''pause'']),
           ws_manager := [''Unknown data frobnicate''], log := [''Unknown data frobnicate'']\<rparr>"
  using unknown_data_warns [of "''frobnicate''" example_playback_manager example_ws_manager
      example_app "[''play'', ''next_video'', ''pause'']" "''play''" "[''pause'']"]
  by (simp add: on_data_def match_data_def on_ws_manager_def read_playback_manager_def
      on_playback_manager_def playback_env_def example_playback_manager_def
      example_ws_manager_def example_app_def)

text \<open>
  C7. For every url and every playback manager, \<^verbatim>\<open>load_video\<close> calls
  \<^verbatim>\<open>playback_manager.queue_video_url(url)\<close> and returns \<^verbatim>\<open>to_dict\<close> of the item that call
  created; the playback state it leaves is the one the call left. Over the
  \<^verbatim>\<open>queue_video_url\<close> of the specification, the queue after the request is the queue
  before it with one new item for that url at its end, and the response is the
  representation of that item.
\<close>

theorem load_video_result:
  fixes s :: "('d, 'p, 'w) app" and pm :: "('p, 'w, 'v, 'r) PlaybackManager"
    and t :: "('e, playback, Event list) app"
    and qm :: "(playback, Event list, QueueItem, 'x) PlaybackManager"
  shows "(let c = queue_video_url pm u
             (playback_env (log_info (''Request to add '' @ u @ '' recieved'') s));
       r = load_video pm (VideoAction u) s
   in fst r = to_dict pm (fst c)
      \<and> playback_env (snd r) = snd c
      \<and> device_manager (snd r) = device_manager s)
   \<and> (let r = load_video (qm\<lparr>queue_video_url := spec_queue_video_url resolve\<rparr>)
                 (VideoAction u) t;
           item = spec_new_item resolve u (queue (playback_manager t))
       in queue (playback_manager (snd r)) = queue (playback_manager t) @ [item]
          \<and> source_url item = u
          \<and> fst r = to_dict qm item)"
proof -
  have general: "let c = queue_video_url pm u
             (playback_env (log_info (''Request to add '' @ u @ '' recieved'') s));
       r = load_video pm (VideoAction u) s
   in fst r = to_dict pm (fst c)
      \<and> playback_env (snd r) = snd c
      \<and> device_manager (snd r) = device_manager s"
    by (simp add: load_video_def Let_def split_beta on_playback_manager_env log_info_fields)
  have appended: "let r = load_video (qm\<lparr>queue_video_url := spec_queue_video_url resolve\<rparr>)
                 (VideoAction u) t;
           item = spec_new_item resolve u (queue (playback_manager t))
       in queue (playback_manager (snd r)) = queue (playback_manager t) @ [item]
          \<and> source_url item = u
          \<and> fst r = to_dict qm item"
    by (simp add: load_video_def Let_def split_beta on_playback_manager_env log_info_fields
        spec_queue_video_url_def playback_env_def spec_new_item_def)
  from general appended show ?thesis
    by blast
qed

text \<open>At a queue that holds one item already.\<close>

theorem load_video_result_witness:
  "fst (load_video (example_spec_playback_manager) (VideoAction ''https://youtu.be/x'')
          example_playback_app)
     = [(''url'', ''https://youtu.be/x''), (''title'', ''Sea shanties'')]
   \<and> map source_url (queue (playback_manager (snd (load_video example_spec_playback_manager
          (VideoAction ''https://youtu.be/x'') example_playback_app))))
     = [''https://youtu.be/w'', ''https://youtu.be/x'']"
  using load_video_result [where qm = example_spec_playback_manager
      and resolve = example_resolve and u = "''https://youtu.be/x''" and t = example_playback_app
      and pm = example_playback_manager and s = example_app]
  by (simp add: Let_def example_spec_playback_manager_def example_playback_app_def
      example_resolve_def example_item_dict_def spec_new_item_def)

subsection \<open>The sink invariant\<close>

lemma filter_address_le_one:
  "distinct (map address ds) \<Longrightarrow> length (filter (\<lambda>d. address d = a) ds) \<le> 1"
proof (induction ds)
  case Nil
  then show ?case by simp
next
  case (Cons x ds)
  show ?case
  proof (cases "address x = a")
    case True
    with Cons.prems have "a \<notin> address ` set ds" by auto
    then have "filter (\<lambda>d. address d = a) ds = []"
      by (auto simp: filter_empty_conv)
    with True show ?thesis by simp
  next
    case False
    with Cons show ?thesis by simp
  qed
qed

lemma at_most_one_sink_mark:
  "distinct (map address ds) \<Longrightarrow>
     at_most_one_sink (map (\<lambda>x. x\<lparr>is_current_sink := (address x = a)\<rparr>) ds)"
  using filter_address_le_one [of ds a]
  by (simp add: at_most_one_sink_def filter_map comp_def)

lemma at_most_one_sink_clear:
  "at_most_one_sink (map (\<lambda>x. x\<lparr>is_current_sink := False\<rparr>) ds)"
  by (simp add: at_most_one_sink_def filter_map comp_def)

text \<open>What one request does to the registry, by cases.\<close>

lemma sink_request_registry:
  fixes s :: "('h devices, 'p, Event list) app" and hw :: "'h hardware_layer" and action
  defines "r \<equiv> bluetooth_sink (spec_device_manager hw) action s"
  shows "(registry (device_manager (snd r)) = registry (device_manager s) \<and> isl (fst r))
     \<or> (\<exists>a. SinkAction.address action = Some a \<and> a \<noteq> [] \<and> \<not> isl (fst r) \<and>
          registry (device_manager (snd r))
            = map (\<lambda>x. x\<lparr>is_current_sink := (address x = a)\<rparr>) (registry (device_manager s)))
     \<or> (\<not> truthy (SinkAction.address action) \<and> \<not> isl (fst r) \<and>
          registry (device_manager (snd r))
            = map (\<lambda>x. x\<lparr>is_current_sink := False\<rparr>) (registry (device_manager s)))"
  unfolding r_def
  by (cases action)
     (auto simp: bluetooth_sink_def spec_device_manager_def spec_set_sink_def
        spec_unset_sinks_def on_device_manager_def device_env_def log_info_def truthy_def
        Let_def split: prod.splits option.splits)

lemma sink_request_invariant:
  fixes s :: "('h devices, 'p, Event list) app" and hw :: "'h hardware_layer"
  assumes "distinct (map address (registry (device_manager s)))"
    and "at_most_one_sink (registry (device_manager s))"
  shows "distinct (map address (registry (device_manager
           (snd (bluetooth_sink (spec_device_manager hw) action s)))))
     \<and> at_most_one_sink (registry (device_manager
           (snd (bluetooth_sink (spec_device_manager hw) action s))))"
  using sink_request_registry [of hw action s] assms
  by (auto simp: at_most_one_sink_mark at_most_one_sink_clear comp_def)

lemma sink_requests_invariant:
  fixes s :: "('h devices, 'p, Event list) app" and hw :: "'h hardware_layer"
  assumes "distinct (map address (registry (device_manager s)))"
    and "at_most_one_sink (registry (device_manager s))"
  shows "\<forall>t \<in> set (sink_requests (spec_device_manager hw) actions s).
           at_most_one_sink (registry (device_manager t))"
  using assms
proof (induction actions arbitrary: s)
  case Nil
  then show ?case by simp
next
  case (Cons action actions)
  from sink_request_invariant [OF Cons.prems, of hw action]
  show ?case
    using Cons.IH [of "snd (bluetooth_sink (spec_device_manager hw) action s)"]
    by (simp add: Let_def)
qed

lemma set_sink_marks:
  fixes t :: "('h devices, 'p, Event list) app" and hw :: "'h hardware_layer"
  assumes "a \<noteq> []"
    and "fst (bluetooth_sink (spec_device_manager hw) (SinkAction (Some a)) t)
           = Inr [(''message'', a @ '' set as new sink'')]"
  shows "\<forall>d \<in> set (registry (device_manager
            (snd (bluetooth_sink (spec_device_manager hw) (SinkAction (Some a)) t)))).
           is_current_sink d = (address d = a)"
  using sink_request_registry [of hw "SinkAction (Some a)" t] assms
  by (auto simp: truthy_def)

lemma unset_sinks_clears:
  fixes t :: "('h devices, 'p, Event list) app" and hw :: "'h hardware_layer"
  assumes "fst (bluetooth_sink (spec_device_manager hw) (SinkAction None) t)
           = Inr [(''message'', ''default set as new sink'')]"
  shows "\<forall>d \<in> set (registry (device_manager
            (snd (bluetooth_sink (spec_device_manager hw) (SinkAction None) t)))).
           \<not> is_current_sink d"
  using sink_request_registry [of hw "SinkAction None" t] assms
  by (auto simp: truthy_def)

text \<open>
  C1. Over the device manager of the specification, started from a registry with no
  duplicate address and at most one current sink: after every request of every sequence
  of set-sink requests, with or without an address and whatever the hardware answers, at
  most one device is the current sink. A request that sets the sink to an address and
  succeeds leaves the flag on the devices of that address and clears it on every other
  device; a request with no address that succeeds clears it on all devices.
\<close>

theorem at_most_one_current_sink:
  fixes s t :: "('h devices, 'p, Event list) app" and hw :: "'h hardware_layer"
  assumes "distinct (map address (registry (device_manager s)))"
    and "at_most_one_sink (registry (device_manager s))"
  shows "(\<forall>u \<in> set (sink_requests (spec_device_manager hw) actions s).
            at_most_one_sink (registry (device_manager u)))
     \<and> (a \<noteq> [] \<and> fst (bluetooth_sink (spec_device_manager hw) (SinkAction (Some a)) t)
                       = Inr [(''message'', a @ '' set as new sink'')]
          \<longrightarrow> (\<forall>d \<in> set (registry (device_manager
                   (snd (bluetooth_sink (spec_device_manager hw) (SinkAction (Some a)) t)))).
                  is_current_sink d = (address d = a)))
     \<and> (fst (bluetooth_sink (spec_device_manager hw) (SinkAction None) t)
            = Inr [(''message'', ''default set as new sink'')]
          \<longrightarrow> (\<forall>d \<in> set (registry (device_manager
                   (snd (bluetooth_sink (spec_device_manager hw) (SinkAction None) t)))).
                  \<not> is_current_sink d))"
  using sink_requests_invariant [OF assms, of hw actions] set_sink_marks [of a hw t]
    unset_sinks_clears [of hw t]
  by blast

text \<open>
  At the example registry of three devices, over a hardware layer that reaches two of
  them, for a sequence of five requests one of which fails.
\<close>

theorem at_most_one_current_sink_witness:
  "distinct (map address (registry (device_manager example_spec_app)))
   \<and> at_most_one_sink (registry (device_manager example_spec_app))
   \<and> ''AA:02'' \<noteq> []
   \<and> fst (bluetooth_sink (spec_device_manager example_hardware) (SinkAction (Some ''AA:02''))
          example_spec_app) = Inr [(''message'', ''AA:02 set as new sink'')]
   \<and> fst (bluetooth_sink (spec_device_manager example_hardware) (SinkAction None)
          example_spec_app) = Inr [(''message'', ''default set as new sink'')]
   \<and> list_all (\<lambda>u. at_most_one_sink (registry (device_manager u)))
        (sink_requests (spec_device_manager example_hardware) example_actions example_spec_app)
   \<and> list_all (\<lambda>d. is_current_sink d = (address d = ''AA:02''))
        (registry (device_manager (snd (bluetooth_sink (spec_device_manager example_hardware)
           (SinkAction (Some ''AA:02'')) example_spec_app))))
   \<and> list_all (\<lambda>d. \<not> is_current_sink d)
        (registry (device_manager (snd (bluetooth_sink (spec_device_manager example_hardware)
           (SinkAction None) example_spec_app))))"
proof -
  have d: "distinct (map address (registry (device_manager example_spec_app)))"
    by (simp add: example_spec_app_def example_registry_def)
  have o: "at_most_one_sink (registry (device_manager example_spec_app))"
    by (simp add: example_spec_app_def example_registry_def at_most_one_sink_def)
  have m: "fst (bluetooth_sink (spec_device_manager example_hardware)
      (SinkAction (Some ''AA:02'')) example_spec_app) = Inr [(''message'', ''AA:02 set as new sink'')]"
    by (simp add: example_spec_app_def example_registry_def
      example_hardware_def spec_device_manager_def spec_set_sink_def
      bluetooth_sink_def truthy_def on_device_manager_def device_env_def log_info_def Let_def)
  have n: "fst (bluetooth_sink (spec_device_manager example_hardware)
      (SinkAction None) example_spec_app) = Inr [(''message'', ''default set as new sink'')]"
    by (simp add: example_spec_app_def example_registry_def
      example_hardware_def spec_device_manager_def spec_unset_sinks_def
      bluetooth_sink_def truthy_def on_device_manager_def device_env_def log_info_def Let_def)
  show ?thesis
    using at_most_one_current_sink [OF d o, of example_hardware example_actions "''AA:02''"
        example_spec_app] d o m n
    by (simp add: list_all_iff)
qed

end
